theory Spec2Isabelle
  imports Complex_Main
begin

section \<open>Time entries and the audit table (schema and migrations)\<close>

text \<open>
  Instants are milliseconds since the epoch. Columns that the schema leaves nullable are
  options: \<open>is_manual\<close> and \<open>approval_status\<close> have defaults but no NOT NULL
  constraint. The primary keys come from a serial counter.
\<close>

datatype approval = Pending | Approved | Denied

record time_entry =
  te_id :: nat
  te_user_id :: nat
  clock_in :: int
  clock_out :: "int option"
  is_manual :: "bool option"
  approval_status :: "approval option"
  approved_by :: "nat option"
  approval_date :: "int option"
  approval_notes :: "string option"
  created_at :: int

datatype audit_action = Create | Update | FallbackFlag | Approve | Deny

record audit_record =
  au_time_entry_id :: nat
  au_user_id :: nat
  au_action :: audit_action
  previous_clock_in :: "int option"
  previous_clock_out :: "int option"
  new_clock_in :: "int option"
  new_clock_out :: "int option"
  previous_approval_status :: "approval option"
  new_approval_status :: "approval option"
  au_created_at :: int

record db =
  time_entries :: "time_entry list"
  time_entry_audit :: "audit_record list"
  next_id :: nat

definition empty_db :: db where
  "empty_db = \<lparr> time_entries = [], time_entry_audit = [], next_id = 1 \<rparr>"

text \<open>SQL \<^verbatim>\<open>x BETWEEN a AND b\<close> and \<^verbatim>\<open>COALESCE(clock_out, NOW())\<close>.\<close>

definition between :: "int \<Rightarrow> int \<Rightarrow> int \<Rightarrow> bool" where
  "between x a b = (a \<le> x \<and> x \<le> b)"

definition effective_end :: "int \<Rightarrow> time_entry \<Rightarrow> int" where
  "effective_end now e = (case clock_out e of None \<Rightarrow> now | Some t \<Rightarrow> t)"

text \<open>
  PostgreSQL holds timestamps from 4713 BC to 294276 AD: from
  \<open>-210866803200000\<close> (24 November 4714 BC of the proleptic Gregorian calendar) up to, not
  including, \<open>9224318016000000\<close> (1 January 294277), in milliseconds since the epoch. A
  statement with a timestamp parameter outside that range raises. Every JavaScript date
  lies below the upper end; the dates before 4713 BC are the ones the database refuses.
\<close>

definition pg_timestamp_min :: int where
  "pg_timestamp_min = - 210866803200000"

definition pg_timestamp_end :: int where
  "pg_timestamp_end = 9224318016000000"

definition storable :: "int \<Rightarrow> bool" where
  "storable t = (pg_timestamp_min \<le> t \<and> t < pg_timestamp_end)"

text \<open>\<^verbatim>\<open>UPDATE time_entries SET ... WHERE id = $n\<close> and the rows it returns.\<close>

definition update_by_id :: "nat \<Rightarrow> (time_entry \<Rightarrow> time_entry) \<Rightarrow> time_entry list \<Rightarrow> time_entry list" where
  "update_by_id i f rows = map (\<lambda>e. if te_id e = i then f e else e) rows"

definition returning :: "nat \<Rightarrow> time_entry list \<Rightarrow> time_entry list" where
  "returning i rows = filter (\<lambda>e. te_id e = i) rows"

section \<open>Requests and replies of the time routes\<close>

text \<open>
  The two body fields as the handlers see them. \<open>InMissing\<close> is a falsy value,
  \<open>InInvalid\<close> a value that \<^verbatim>\<open>new Date\<close> turns into an invalid date. For the clock-out
  field, \<open>OutBlank\<close> is a string of white space only (truthy, empty once trimmed) and
  \<open>OutNotString\<close> a truthy value without a \<^verbatim>\<open>trim\<close> method, on which
  \<^verbatim>\<open>clockOut.trim()\<close> throws a TypeError.

  A database statement succeeds unless one of its timestamp parameters is a date the
  database cannot hold (see \<open>storable\<close>), and the statements of one request run without
  those of another in between (the approval route is also modelled statement by
  statement, further down). A handler reaches its catch block through that TypeError or
  through a statement that raises. The replies keep the fields of the entry; the formatted \<open>hoursWorked\<close>
  is left out. Authentication and the administrator check happen before the handlers.
\<close>

datatype clock_in_field = InMissing | InInvalid | InTime int

datatype clock_out_field = OutMissing | OutBlank | OutNotString | OutInvalid | OutTime int

text \<open>
  The replies that carry no code in the source are named after the specification:
  \<open>ALREADY_ACTIVE\<close> is "Already clocked in", \<open>NO_ACTIVE_ENTRY\<close> is "No active clock-in
  found", \<open>ALREADY_REVIEWED\<close> is "Time entry has already been reviewed".
\<close>

datatype error =
    ALREADY_ACTIVE | NO_ACTIVE_ENTRY | NOT_FOUND
  | CLOCK_IN_REQUIRED | CLOCK_OUT_REQUIRED | INVALID_CLOCK_IN | INVALID_CLOCK_OUT
  | CLOCK_ORDER | OVERLAP | ACTIVE_EDIT_FORBIDDEN
  | INVALID_STATUS | ALREADY_REVIEWED | DELETE_ACTIVE
  | CREATE_FAIL | FALLBACK_FAIL | INTERNAL_ERROR

record entry_payload =
  p_id :: nat
  p_clockIn :: int
  p_clockOut :: "int option"
  p_isManual :: "bool option"
  p_approvalStatus :: "approval option"

datatype reply =
    Failed error
  | ClockedIn nat int
  | ClockedOut nat int "int option"
  | Created entry_payload
  | NoChanges entry_payload
  | Updated bool entry_payload
  | Flagged entry_payload
  | Reviewed time_entry
  | Deleted

section \<open>POST /clock-in and POST /clock-out\<close>

definition active_rows :: "nat \<Rightarrow> db \<Rightarrow> time_entry list" where
  "active_rows userId d =
     filter (\<lambda>e. te_user_id e = userId \<and> clock_out e = None) (time_entries d)"

text \<open>The single active session invariant, subject by subject.\<close>

definition single_active :: "db \<Rightarrow> bool" where
  "single_active d = (\<forall>userId. length (active_rows userId d) \<le> 1)"

definition clockIn :: "nat \<Rightarrow> int \<Rightarrow> db \<Rightarrow> reply \<times> db" where
  "clockIn userId now d =
     (if active_rows userId d \<noteq> [] then (Failed ALREADY_ACTIVE, d)
      else
        let timeEntry = \<lparr> te_id = next_id d, te_user_id = userId, clock_in = now,
                          clock_out = None, is_manual = Some False,
                          approval_status = Some Approved, approved_by = None,
                          approval_date = None, approval_notes = None, created_at = now \<rparr>
        in (ClockedIn (te_id timeEntry) (clock_in timeEntry),
            d\<lparr> time_entries := time_entries d @ [timeEntry], next_id := Suc (next_id d) \<rparr>))"

definition clockOut :: "nat \<Rightarrow> int \<Rightarrow> db \<Rightarrow> reply \<times> db" where
  "clockOut userId now d =
     (case active_rows userId d of
        [] \<Rightarrow> (Failed NO_ACTIVE_ENTRY, d)
      | activeEntry # _ \<Rightarrow>
          let entryId = te_id activeEntry;
              rows = update_by_id entryId (\<lambda>e. e\<lparr> clock_out := Some now \<rparr>) (time_entries d)
          in (case returning entryId rows of
                [] \<Rightarrow> (Failed INTERNAL_ERROR, d\<lparr> time_entries := rows \<rparr>)
              | timeEntry # _ \<Rightarrow>
                  (ClockedOut entryId (clock_in timeEntry) (clock_out timeEntry),
                   d\<lparr> time_entries := rows \<rparr>)))"

section \<open>DELETE /entry/:id\<close>

text \<open>The audit rows of a deleted entry go with it (ON DELETE CASCADE).\<close>

definition deleteEntry :: "nat \<Rightarrow> nat \<Rightarrow> db \<Rightarrow> reply \<times> db" where
  "deleteEntry userId entryId d =
     (if filter (\<lambda>e. te_id e = entryId \<and> te_user_id e = userId) (time_entries d) = []
        then (Failed NOT_FOUND, d)
      else if filter (\<lambda>e. te_id e = entryId \<and> clock_out e = None) (time_entries d) \<noteq> []
        then (Failed DELETE_ACTIVE, d)
      else (Deleted,
            d\<lparr> time_entries := filter (\<lambda>e. te_id e \<noteq> entryId) (time_entries d),
               time_entry_audit :=
                 filter (\<lambda>a. au_time_entry_id a \<noteq> entryId) (time_entry_audit d) \<rparr>))"

section \<open>POST /entry: create a manual entry\<close>

text \<open>
  The four-way interval test that both overlap queries share, for a candidate interval
  with both ends given.
\<close>

definition overlaps :: "int \<Rightarrow> int \<Rightarrow> int \<Rightarrow> time_entry \<Rightarrow> bool" where
  "overlaps clockInDate clockOutDate now e =
     (between clockInDate (clock_in e) (effective_end now e)
      \<or> between clockOutDate (clock_in e) (effective_end now e)
      \<or> between (clock_in e) clockInDate clockOutDate
      \<or> between (effective_end now e) clockInDate clockOutDate)"

text \<open>
  The overlap query of the create route; \<open>None\<close> when the statement raises because a
  submitted date is outside the database's range.
\<close>

definition create_overlapCheck ::
  "nat \<Rightarrow> int \<Rightarrow> int \<Rightarrow> int \<Rightarrow> db \<Rightarrow> time_entry list option" where
  "create_overlapCheck userId clockInDate clockOutDate now d =
     (if storable clockInDate \<and> storable clockOutDate
      then Some (filter (\<lambda>e. te_user_id e = userId
                   \<and> (approval_status e = None \<or> approval_status e = Some Approved)
                   \<and> overlaps clockInDate clockOutDate now e)
             (time_entries d))
      else None)"

definition payload_of :: "time_entry \<Rightarrow> entry_payload" where
  "payload_of e = \<lparr> p_id = te_id e, p_clockIn = clock_in e, p_clockOut = clock_out e,
                    p_isManual = is_manual e, p_approvalStatus = approval_status e \<rparr>"

definition insert_manual :: "nat \<Rightarrow> int \<Rightarrow> int \<Rightarrow> int \<Rightarrow> db \<Rightarrow> reply \<times> db" where
  "insert_manual userId clockInDate clockOutDate now d =
     (let timeEntry = \<lparr> te_id = next_id d, te_user_id = userId, clock_in = clockInDate,
                         clock_out = Some clockOutDate, is_manual = Some True,
                         approval_status = Some Pending, approved_by = None,
                         approval_date = None, approval_notes = None, created_at = now \<rparr>;
          audit = \<lparr> au_time_entry_id = te_id timeEntry, au_user_id = userId,
                     au_action = Create, previous_clock_in = None, previous_clock_out = None,
                     new_clock_in = Some (clock_in timeEntry),
                     new_clock_out = clock_out timeEntry,
                     previous_approval_status = None,
                     new_approval_status = approval_status timeEntry,
                     au_created_at = now \<rparr>
      in (Created ((payload_of timeEntry)\<lparr> p_isManual := Some True \<rparr>),
          d\<lparr> time_entries := time_entries d @ [timeEntry],
             time_entry_audit := time_entry_audit d @ [audit],
             next_id := Suc (next_id d) \<rparr>))"

fun createManualEntry ::
  "nat \<Rightarrow> clock_in_field \<Rightarrow> clock_out_field \<Rightarrow> int \<Rightarrow> db \<Rightarrow> reply \<times> db" where
  "createManualEntry userId InMissing cout now d = (Failed CLOCK_IN_REQUIRED, d)"
| "createManualEntry userId cin OutMissing now d = (Failed CLOCK_OUT_REQUIRED, d)"
| "createManualEntry userId cin OutBlank now d = (Failed CLOCK_OUT_REQUIRED, d)"
| "createManualEntry userId cin OutNotString now d = (Failed CREATE_FAIL, d)"
| "createManualEntry userId InInvalid cout now d = (Failed INVALID_CLOCK_IN, d)"
| "createManualEntry userId (InTime clockInDate) OutInvalid now d = (Failed INVALID_CLOCK_OUT, d)"
| "createManualEntry userId (InTime clockInDate) (OutTime clockOutDate) now d =
     (if clockOutDate \<le> clockInDate then (Failed CLOCK_ORDER, d)
      else
        (case create_overlapCheck userId clockInDate clockOutDate now d of
           None \<Rightarrow> (Failed CREATE_FAIL, d)
         | Some [] \<Rightarrow> insert_manual userId clockInDate clockOutDate now d
         | Some (row # _) \<Rightarrow> (Failed OVERLAP, d)))"

section \<open>PUT /entry/:id: update an entry, and its fallback\<close>

definition entryCheck :: "nat \<Rightarrow> nat \<Rightarrow> db \<Rightarrow> time_entry list" where
  "entryCheck entryId userId d =
     filter (\<lambda>e. te_id e = entryId \<and> te_user_id e = userId) (time_entries d)"

text \<open>
  The two overlap queries of the update route, for a request with and without a
  clock-out; \<open>None\<close> when the statement raises because a submitted date is outside the
  database's range.
\<close>

definition update_overlapCheck ::
  "nat \<Rightarrow> nat \<Rightarrow> int \<Rightarrow> int option \<Rightarrow> int \<Rightarrow> db \<Rightarrow> time_entry list option" where
  "update_overlapCheck userId entryId clockInDate clockOutDate now d =
     (case clockOutDate of
        Some co \<Rightarrow>
          if storable clockInDate \<and> storable co
          then Some (filter (\<lambda>e. te_user_id e = userId \<and> te_id e \<noteq> entryId
                              \<and> overlaps clockInDate co now e)
                      (time_entries d))
          else None
      | None \<Rightarrow>
          if storable clockInDate
          then Some (filter (\<lambda>e. te_user_id e = userId \<and> te_id e \<noteq> entryId
                              \<and> (between clockInDate (clock_in e) (effective_end now e)
                                 \<or> (clock_in e \<le> clockInDate \<and> clock_out e = None)))
                      (time_entries d))
          else None)"

text \<open>
  The catch block. Its verification query selects id, clock_in and clock_out only, so the
  previous approval status written to the audit row is always NULL.
\<close>

definition fallbackFlag :: "nat \<Rightarrow> nat \<Rightarrow> int \<Rightarrow> db \<Rightarrow> reply \<times> db" where
  "fallbackFlag userId entryId now d =
     (case entryCheck entryId userId d of
        [] \<Rightarrow> (Failed NOT_FOUND, d)
      | verify # _ \<Rightarrow>
          let rows = update_by_id entryId
                       (\<lambda>e. e\<lparr> approval_status := Some Pending,
                                is_manual := (case is_manual e of None \<Rightarrow> Some True
                                              | Some b \<Rightarrow> Some b) \<rparr>)
                       (time_entries d)
          in (case returning entryId rows of
                [] \<Rightarrow> (Failed FALLBACK_FAIL, d\<lparr> time_entries := rows \<rparr>)
              | flaggedEntry # _ \<Rightarrow>
                  let audit = \<lparr> au_time_entry_id = te_id flaggedEntry, au_user_id = userId,
                                 au_action = FallbackFlag,
                                 previous_clock_in = Some (clock_in verify),
                                 previous_clock_out = clock_out verify,
                                 new_clock_in = Some (clock_in flaggedEntry),
                                 new_clock_out = clock_out flaggedEntry,
                                 previous_approval_status = None,
                                 new_approval_status = approval_status flaggedEntry,
                                 au_created_at = now \<rparr>
                  in (Flagged ((payload_of flaggedEntry)\<lparr> p_isManual := Some True \<rparr>),
                      d\<lparr> time_entries := rows,
                         time_entry_audit := time_entry_audit d @ [audit] \<rparr>)))"

text \<open>Lines 284 to 406: from the overlap query to the reply, with the parsed dates.\<close>

definition update_checked ::
  "nat \<Rightarrow> nat \<Rightarrow> time_entry \<Rightarrow> int \<Rightarrow> int option \<Rightarrow> int \<Rightarrow> db \<Rightarrow> reply \<times> db" where
  "update_checked userId entryId existing clockInDate clockOutDate now d =
     (case update_overlapCheck userId entryId clockInDate clockOutDate now d of
        None \<Rightarrow> fallbackFlag userId entryId now d
      | Some (row # _) \<Rightarrow> (Failed OVERLAP, d)
      | Some [] \<Rightarrow>
      if clock_out existing = None then (Failed ACTIVE_EDIT_FORBIDDEN, d)
      else
        let timesChanged =
              (clock_in existing \<noteq> clockInDate
               \<or> (clock_out existing \<noteq> None \<and> clockOutDate \<noteq> None
                    \<and> clock_out existing \<noteq> clockOutDate)
               \<or> ((clock_out existing \<noteq> None) \<noteq> (clockOutDate \<noteq> None)));
            manual = (is_manual existing = Some True);
            shouldResetToPending =
              (\<not> manual
               \<or> (timesChanged \<and> approval_status existing \<noteq> Some Pending)
               \<or> (manual \<and> (approval_status existing = Some Approved
                             \<or> approval_status existing = Some Denied)));
            nextApprovalStatus =
              (if shouldResetToPending then Some Pending
               else (case approval_status existing of None \<Rightarrow> Some Pending
                     | Some st \<Rightarrow> Some st));
            nextIsManual = (if shouldResetToPending then Some True else is_manual existing)
        in
          if \<not> timesChanged \<and> manual \<and> approval_status existing = Some Pending
            then (NoChanges \<lparr> p_id = te_id existing, p_clockIn = clock_in existing,
                              p_clockOut = clock_out existing, p_isManual = Some True,
                              p_approvalStatus = approval_status existing \<rparr>, d)
          else
            let rows = update_by_id entryId
                         (\<lambda>e. e\<lparr> clock_in := clockInDate, clock_out := clockOutDate,
                                  approval_status := nextApprovalStatus,
                                  is_manual := nextIsManual \<rparr>)
                         (time_entries d);
                audit = \<lparr> au_time_entry_id = entryId, au_user_id = userId,
                           au_action = Update,
                           previous_clock_in = Some (clock_in existing),
                           previous_clock_out = clock_out existing,
                           new_clock_in = Some clockInDate,
                           new_clock_out = clockOutDate,
                           previous_approval_status = approval_status existing,
                           new_approval_status = nextApprovalStatus,
                           au_created_at = now \<rparr>;
                d' = d\<lparr> time_entries := rows,
                        time_entry_audit := time_entry_audit d @ [audit] \<rparr>
            in (case returning entryId rows of
                  [] \<Rightarrow> fallbackFlag userId entryId now d'
                | timeEntry # _ \<Rightarrow> (Updated shouldResetToPending (payload_of timeEntry), d')))"

text \<open>
  The handler up to the overlap query. The clock-out field is trimmed on line 270, before
  the clock-in date is examined, so a clock-out that is not a string throws there and
  the catch block runs.
\<close>

definition updateEntry ::
  "nat \<Rightarrow> nat \<Rightarrow> clock_in_field \<Rightarrow> clock_out_field \<Rightarrow> int \<Rightarrow> db \<Rightarrow> reply \<times> db" where
  "updateEntry userId entryId cin cout now d =
     (case entryCheck entryId userId d of
        [] \<Rightarrow> (Failed NOT_FOUND, d)
      | existing # _ \<Rightarrow>
          (case cin of
             InMissing \<Rightarrow> (Failed CLOCK_IN_REQUIRED, d)
           | InInvalid \<Rightarrow>
               (case cout of
                  OutNotString \<Rightarrow> fallbackFlag userId entryId now d
                | _ \<Rightarrow> (Failed INVALID_CLOCK_IN, d))
           | InTime clockInDate \<Rightarrow>
               (case cout of
                  OutNotString \<Rightarrow> fallbackFlag userId entryId now d
                | OutInvalid \<Rightarrow> (Failed INVALID_CLOCK_OUT, d)
                | OutMissing \<Rightarrow> update_checked userId entryId existing clockInDate None now d
                | OutBlank \<Rightarrow> update_checked userId entryId existing clockInDate None now d
                | OutTime clockOutDate \<Rightarrow>
                    if clockOutDate \<le> clockInDate then (Failed CLOCK_ORDER, d)
                    else update_checked userId entryId existing clockInDate
                           (Some clockOutDate) now d)))"

section \<open>PATCH /entry/:id/approval: approve or deny\<close>

text \<open>
  The handler awaits three statements in turn: the SELECT of the entry, the UPDATE, and
  the INSERT of the audit row. Each statement is one step; between two steps of one
  request the steps of another request may run.
\<close>

datatype requested_status = ReqApproved | ReqDenied | ReqOther

fun decision :: "requested_status \<Rightarrow> approval option" where
  "decision ReqApproved = Some Approved"
| "decision ReqDenied = Some Denied"
| "decision ReqOther = None"

text \<open>\<^verbatim>\<open>notes || null\<close>: an empty string counts as no notes.\<close>

definition notes_param :: "string option \<Rightarrow> string option" where
  "notes_param notes = (case notes of None \<Rightarrow> None
                        | Some n \<Rightarrow> if n = [] then None else Some n)"

record approve_req =
  rq_adminId :: nat
  rq_id :: nat
  rq_status :: requested_status
  rq_notes :: "string option"
  rq_now :: int

datatype approve_pc = AtCheck | AtUpdate | AtAudit time_entry | Finished reply

definition approve_step :: "approve_req \<Rightarrow> approve_pc \<Rightarrow> db \<Rightarrow> approve_pc \<times> db" where
  "approve_step rq pc d =
     (case pc of
        AtCheck \<Rightarrow>
          if decision (rq_status rq) = None then (Finished (Failed INVALID_STATUS), d)
          else
            (case filter (\<lambda>e. te_id e = rq_id rq \<and> is_manual e = Some True) (time_entries d) of
               [] \<Rightarrow> (Finished (Failed NOT_FOUND), d)
             | row # _ \<Rightarrow>
                 if approval_status row \<noteq> Some Pending
                   then (Finished (Failed ALREADY_REVIEWED), d)
                 else (AtUpdate, d))
      | AtUpdate \<Rightarrow>
          let rows = update_by_id (rq_id rq)
                       (\<lambda>e. e\<lparr> approval_status := decision (rq_status rq),
                                approved_by := Some (rq_adminId rq),
                                approval_date := Some (rq_now rq),
                                approval_notes :=
                                  (case notes_param (rq_notes rq) of
                                     None \<Rightarrow> approval_notes e
                                   | Some n \<Rightarrow> Some n) \<rparr>)
                       (time_entries d)
          in (case returning (rq_id rq) rows of
                [] \<Rightarrow> (Finished (Failed INTERNAL_ERROR), d\<lparr> time_entries := rows \<rparr>)
              | entry # _ \<Rightarrow> (AtAudit entry, d\<lparr> time_entries := rows \<rparr>))
      | AtAudit entry \<Rightarrow>
          let audit = \<lparr> au_time_entry_id = te_id entry, au_user_id = rq_adminId rq,
                         au_action = (if rq_status rq = ReqApproved then Approve else Deny),
                         previous_clock_in = Some (clock_in entry),
                         previous_clock_out = clock_out entry,
                         new_clock_in = Some (clock_in entry),
                         new_clock_out = clock_out entry,
                         previous_approval_status = Some Pending,
                         new_approval_status = approval_status entry,
                         au_created_at = rq_now rq \<rparr>
          in (Finished (Reviewed entry),
              d\<lparr> time_entry_audit := time_entry_audit d @ [audit] \<rparr>)
      | Finished r \<Rightarrow> (Finished r, d))"

text \<open>One request run alone: its three steps in a row.\<close>

definition approveOrDeny :: "approve_req \<Rightarrow> db \<Rightarrow> reply \<times> db" where
  "approveOrDeny rq d =
     (let (pc1, d1) = approve_step rq AtCheck d;
          (pc2, d2) = approve_step rq pc1 d1;
          (pc3, d3) = approve_step rq pc2 d2
      in (case pc3 of Finished r \<Rightarrow> (r, d3) | _ \<Rightarrow> (Failed INTERNAL_ERROR, d3)))"

text \<open>
  Two requests under a schedule: \<open>True\<close> lets the first request take its next step,
  \<open>False\<close> the second.
\<close>

fun interleave ::
  "approve_req \<Rightarrow> approve_req \<Rightarrow> bool list \<Rightarrow> approve_pc \<times> approve_pc \<times> db
     \<Rightarrow> approve_pc \<times> approve_pc \<times> db" where
  "interleave a b [] s = s"
| "interleave a b (True # sched) (pa, pb, d) =
     (let (pa', d') = approve_step a pa d in interleave a b sched (pa', pb, d'))"
| "interleave a b (False # sched) (pa, pb, d) =
     (let (pb', d') = approve_step b pb d in interleave a b sched (pa, pb', d'))"

section \<open>Entry form validation (TimeEntryModal.validateForm)\<close>

datatype form_error = FormClockInRequired | FormClockOutRequired | FormClockOrder | FormExceeds24h

definition validateForm_errors :: "int option \<Rightarrow> int option \<Rightarrow> form_error list" where
  "validateForm_errors formClockIn formClockOut =
     (case formClockIn of None \<Rightarrow> [FormClockInRequired] | Some _ \<Rightarrow> [])
     @ (case formClockOut of
          None \<Rightarrow> [FormClockOutRequired]
        | Some co \<Rightarrow>
            (case formClockIn of
               None \<Rightarrow> []
             | Some ci \<Rightarrow>
                 if co \<le> ci then [FormClockOrder]
                 else if co - ci > 24 * (1000 * 60 * 60) then [FormExceeds24h]
                 else []))"

definition validateForm :: "int option \<Rightarrow> int option \<Rightarrow> bool" where
  "validateForm formClockIn formClockOut = (validateForm_errors formClockIn formClockOut = [])"

section \<open>Payroll aggregation (admin route GET /payroll/period-hours)\<close>

text \<open>
  The arithmetic of the payroll route, after the SQL sum of hours has been read.
  JavaScript numbers are modelled as exact reals; the hourly rate column is nullable
  and \<^verbatim>\<open>parseFloat(u.hourly_rate) || 0\<close> turns a missing rate into 0.
\<close>

datatype pay_schedule = Weekly | BiWeekly | BiMonthly | Monthly

text \<open>
  The sum of the hours of a subject's completed entries whose clock-in lies in the window
  \<^verbatim>\<open>clock_in >= $2 AND clock_in < $3\<close>; an entry counts in full for the window that
  holds its clock-in. The window bounds are instants here.
\<close>

definition hoursResult :: "nat \<Rightarrow> int \<Rightarrow> int \<Rightarrow> db \<Rightarrow> real" where
  "hoursResult userId periodStartMs periodEndMs d =
     sum_list
       (map (\<lambda>e. case clock_out e of None \<Rightarrow> 0
                  | Some co \<Rightarrow> real_of_int (co - clock_in e) / 3600000)
          (filter (\<lambda>e. te_user_id e = userId \<and> clock_out e \<noteq> None
                       \<and> periodStartMs \<le> clock_in e \<and> clock_in e < periodEndMs)
             (time_entries d)))"

record payroll =
  regularHours :: real
  overtimeHours :: real
  estGross :: real

text \<open>The \<^verbatim>\<open>switch (schedule)\<close>: bi-weekly is also the default branch.\<close>

fun overtimeThreshold :: "pay_schedule \<Rightarrow> real" where
  "overtimeThreshold Weekly = 40"
| "overtimeThreshold Monthly = 160"
| "overtimeThreshold BiWeekly = 80"
| "overtimeThreshold BiMonthly = 80"

definition overtimeRateMultiplier :: real where
  "overtimeRateMultiplier = 3 / 2"

definition rateOf :: "real option \<Rightarrow> real" where
  "rateOf hourly_rate = (case hourly_rate of None \<Rightarrow> 0 | Some r \<Rightarrow> r)"

definition computePayroll :: "real \<Rightarrow> bool \<Rightarrow> real \<Rightarrow> real \<Rightarrow> payroll" where
  "computePayroll totalHours overtimeEnabled threshold rate =
     (let regular = (if overtimeEnabled then min totalHours threshold else totalHours);
          overtime = (if overtimeEnabled then max 0 (totalHours - threshold) else 0)
      in \<lparr> regularHours = regular,
           overtimeHours = overtime,
           estGross = regular * rate + overtime * rate * overtimeRateMultiplier \<rparr>)"

text \<open>\<^verbatim>\<open>Number(x.toFixed(2))\<close>: rounding to two decimals, half away from zero.\<close>

definition toFixed2 :: "real \<Rightarrow> real" where
  "toFixed2 x = (if x < 0 then - (of_int \<lfloor>- x * 100 + 1 / 2\<rfloor> / 100)
                 else of_int \<lfloor>x * 100 + 1 / 2\<rfloor> / 100)"

record payroll_row =
  row_hours :: real
  row_regularHours :: real
  row_overtimeHours :: real
  row_estGross :: real
  row_hourlyRate :: real
  row_overtimeEnabled :: bool

definition payrollRow :: "real \<Rightarrow> bool \<Rightarrow> pay_schedule \<Rightarrow> real option \<Rightarrow> payroll_row" where
  "payrollRow totalHours overtimeEnabled schedule hourly_rate =
     (let rate = rateOf hourly_rate;
          p = computePayroll totalHours overtimeEnabled (overtimeThreshold schedule) rate
      in \<lparr> row_hours = toFixed2 totalHours,
           row_regularHours = toFixed2 (regularHours p),
           row_overtimeHours = toFixed2 (overtimeHours p),
           row_estGross = toFixed2 (estGross p),
           row_hourlyRate = toFixed2 rate,
           row_overtimeEnabled = overtimeEnabled \<rparr>)"

section \<open>Calendar dates: the local fields of a JavaScript Date\<close>

text \<open>
  A date is held by its local calendar fields; months count from 0.
  \<open>DayFromYear\<close>, \<open>MakeDay\<close> and the week day are those of the language
  definition; \<open>normDay\<close> carries a day of the month that lies outside the month into
  the neighbouring months, as \<^verbatim>\<open>setDate\<close> and the \<^verbatim>\<open>Date\<close> constructor do.
  Dates are taken to lie within the range of instants a \<^verbatim>\<open>Date\<close> can hold.
\<close>

record jsdate =
  d_year :: int
  d_month :: int
  d_date :: int
  d_hours :: int
  d_minutes :: int
  d_seconds :: int
  d_ms :: int

definition leap :: "int \<Rightarrow> bool" where
  "leap y = ((y mod 4 = 0 \<and> y mod 100 \<noteq> 0) \<or> y mod 400 = 0)"

definition daysInMonth :: "int \<Rightarrow> int \<Rightarrow> int" where
  "daysInMonth y m =
     (if m = 1 then (if leap y then 29 else 28)
      else if m = 3 \<or> m = 5 \<or> m = 8 \<or> m = 10 then 30 else 31)"

definition DayFromYear :: "int \<Rightarrow> int" where
  "DayFromYear y = 365 * (y - 1970) + (y - 1969) div 4 - (y - 1901) div 100 + (y - 1601) div 400"

definition daysBeforeMonth :: "int \<Rightarrow> int \<Rightarrow> int" where
  "daysBeforeMonth y m =
     (if m = 0 then 0 else if m = 1 then 31
      else (if leap y then 1 else 0) +
        (if m = 2 then 59 else if m = 3 then 90 else if m = 4 then 120
         else if m = 5 then 151 else if m = 6 then 181 else if m = 7 then 212
         else if m = 8 then 243 else if m = 9 then 273 else if m = 10 then 304 else 334))"

definition MakeDay :: "int \<Rightarrow> int \<Rightarrow> int \<Rightarrow> int" where
  "MakeDay y m dt = DayFromYear y + daysBeforeMonth y m + dt - 1"

function normDay :: "int \<Rightarrow> int \<Rightarrow> int \<Rightarrow> int \<times> int \<times> int" where
  "normDay y m dt =
     (if dt < 1 then
        (if m = 0 then normDay (y - 1) 11 (dt + daysInMonth (y - 1) 11)
         else normDay y (m - 1) (dt + daysInMonth y (m - 1)))
      else if dt > daysInMonth y m then
        (if m = 11 then normDay (y + 1) 0 (dt - daysInMonth y m)
         else normDay y (m + 1) (dt - daysInMonth y m))
      else (y, m, dt))"
  by pat_completeness auto
termination
  by (relation "measure (\<lambda>(y, m, dt). nat (if dt < 1 then 33 - dt else dt))")
     (auto simp: daysInMonth_def)

declare normDay.simps [simp del]

text \<open>The day number of a date (days since 1 January 1970) and its day of the week.\<close>

definition dayNumber :: "jsdate \<Rightarrow> int" where
  "dayNumber t = MakeDay (d_year t) (d_month t) (d_date t)"

definition getDay :: "jsdate \<Rightarrow> int" where
  "getDay t = (dayNumber t + 4) mod 7"

text \<open>
  A setter and the constructor compute the local fields asked for, store the instant the
  time zone gives them, and the fields read afterwards are the local fields of that
  instant. A zone is given here by that round trip on local fields (the local time of
  the UTC instant of a local time) and by the offset of local time from UTC, in
  milliseconds, at a local time. In a zone with a fixed offset every local time exists
  once and the round trip changes nothing; where the clocks are moved forward, a local
  time inside the gap is read back shifted.
\<close>

record zone =
  tz_offset :: "jsdate \<Rightarrow> int"
  tz_roundtrip :: "jsdate \<Rightarrow> jsdate"



definition getTime :: "zone \<Rightarrow> jsdate \<Rightarrow> int" where
  "getTime z t = dayNumber t * 86400000
                 + ((d_hours t * 60 + d_minutes t) * 60 + d_seconds t) * 1000 + d_ms t
                 - tz_offset z t"

text \<open>The local fields that \<^verbatim>\<open>setDate\<close> and \<^verbatim>\<open>setHours\<close> ask for.\<close>

definition setDate_fields :: "jsdate \<Rightarrow> int \<Rightarrow> jsdate" where
  "setDate_fields t dt =
     (case normDay (d_year t) (d_month t) dt of
        (y, m, d) \<Rightarrow> t\<lparr> d_year := y, d_month := m, d_date := d \<rparr>)"

definition setDate :: "zone \<Rightarrow> jsdate \<Rightarrow> int \<Rightarrow> jsdate" where
  "setDate z t dt = tz_roundtrip z (setDate_fields t dt)"

text \<open>The program calls \<^verbatim>\<open>setHours\<close> with (0, 0, 0, 0) and (23, 59, 59, 999) only.\<close>

definition setHours_fields :: "jsdate \<Rightarrow> int \<Rightarrow> int \<Rightarrow> int \<Rightarrow> int \<Rightarrow> jsdate" where
  "setHours_fields t h mi s ms =
     t\<lparr> d_hours := h, d_minutes := mi, d_seconds := s, d_ms := ms \<rparr>"

definition setHours :: "zone \<Rightarrow> jsdate \<Rightarrow> int \<Rightarrow> int \<Rightarrow> int \<Rightarrow> int \<Rightarrow> jsdate" where
  "setHours z t h mi s ms = tz_roundtrip z (setHours_fields t h mi s ms)"

text \<open>
  The constructor \<^verbatim>\<open>new Date(year, month, date, hours, minutes, seconds, ms)\<close>. It
  reads a year from 0 to 99 as 1900 + year, and carries a month outside 0 to 11 into the
  year. The program passes time fields that are in range.
\<close>

definition MakeFullYear :: "int \<Rightarrow> int" where
  "MakeFullYear year = (if 0 \<le> year \<and> year \<le> 99 then 1900 + year else year)"

definition newDate_fields :: "int \<Rightarrow> int \<Rightarrow> int \<Rightarrow> int \<Rightarrow> int \<Rightarrow> int \<Rightarrow> int \<Rightarrow> jsdate" where
  "newDate_fields year month dt h mi s ms =
     (case normDay (MakeFullYear year + month div 12) (month mod 12) dt of
        (y, m, d) \<Rightarrow> \<lparr> d_year = y, d_month = m, d_date = d,
                       d_hours = h, d_minutes = mi, d_seconds = s, d_ms = ms \<rparr>)"

definition newDate ::
  "zone \<Rightarrow> int \<Rightarrow> int \<Rightarrow> int \<Rightarrow> int \<Rightarrow> int \<Rightarrow> int \<Rightarrow> int \<Rightarrow> jsdate" where
  "newDate z year month dt h mi s ms = tz_roundtrip z (newDate_fields year month dt h mi s ms)"


section \<open>PayPeriodCalculator (frontend types)\<close>

record pay_period =
  startDate :: jsdate
  endDate :: jsdate
  description :: string

definition getWeeklyPeriod :: "zone \<Rightarrow> jsdate \<Rightarrow> pay_period" where
  "getWeeklyPeriod z date =
     (let startOfWeek = setHours z (setDate z date (d_date date - getDay date)) 0 0 0 0;
          endOfWeek = setHours z (setDate z startOfWeek (d_date startOfWeek + 6)) 23 59 59 999
      in \<lparr> startDate = startOfWeek, endDate = endOfWeek, description = ''Weekly'' \<rparr>)"

definition getBiWeeklyPeriod :: "zone \<Rightarrow> jsdate \<Rightarrow> pay_period" where
  "getBiWeeklyPeriod z date =
     (let startOfWeek = setHours z (setDate z date (d_date date - getDay date)) 0 0 0 0;
          elapsed = getTime z date - getTime z (newDate z (d_year date) 0 1 0 0 0 0);
          weekOfYear = - ((- elapsed) div (7 * 24 * 60 * 60 * 1000));
          isOddWeek = (weekOfYear mod 2 = 1);
          periodStart = (if isOddWeek then startOfWeek
                         else setDate z startOfWeek (d_date startOfWeek - 7));
          periodEnd = setHours z (setDate z periodStart (d_date periodStart + 13)) 23 59 59 999
      in \<lparr> startDate = periodStart, endDate = periodEnd, description = ''Bi-Weekly'' \<rparr>)"

definition getBiMonthlyPeriod :: "zone \<Rightarrow> jsdate \<Rightarrow> pay_period" where
  "getBiMonthlyPeriod z date =
     (let currentDay = d_date date; year = d_year date; month = d_month date
      in if currentDay \<le> 15
         then \<lparr> startDate = newDate z year month 1 0 0 0 0,
                endDate = newDate z year month 15 23 59 59 999,
                description = ''Bi-Monthly'' \<rparr>
         else \<lparr> startDate = newDate z year month 16 0 0 0 0,
                endDate = newDate z year (month + 1) 0 23 59 59 999,
                description = ''Bi-Monthly'' \<rparr>)"

definition getMonthlyPeriod :: "zone \<Rightarrow> jsdate \<Rightarrow> pay_period" where
  "getMonthlyPeriod z date =
     (let year = d_year date; month = d_month date
      in \<lparr> startDate = newDate z year month 1 0 0 0 0,
           endDate = newDate z year (month + 1) 0 23 59 59 999,
           description = ''Monthly'' \<rparr>)"

fun getCurrentPayPeriod :: "zone \<Rightarrow> pay_schedule \<Rightarrow> jsdate \<Rightarrow> pay_period" where
  "getCurrentPayPeriod z Weekly now = getWeeklyPeriod z now"
| "getCurrentPayPeriod z BiWeekly now = getBiWeeklyPeriod z now"
| "getCurrentPayPeriod z BiMonthly now = getBiMonthlyPeriod z now"
| "getCurrentPayPeriod z Monthly now = getMonthlyPeriod z now"

section \<open>The payroll route's period window\<close>

text \<open>
  The route knows three schedules; any other value, bi-monthly among them, takes the
  bi-weekly branch. The window is used as \<^verbatim>\<open>clock_in >= periodStart AND clock_in < periodEnd\<close>.
\<close>

definition weekStart :: "zone \<Rightarrow> jsdate \<Rightarrow> jsdate" where
  "weekStart z now =
     (let day = getDay now; diffToMonday = (day + 6) mod 7
      in setHours z (setDate z now (d_date now - diffToMonday)) 0 0 0 0)"

definition nextWeekStart :: "zone \<Rightarrow> jsdate \<Rightarrow> jsdate" where
  "nextWeekStart z now = setDate z (weekStart z now) (d_date (weekStart z now) + 7)"

definition prevWeekStart :: "zone \<Rightarrow> jsdate \<Rightarrow> jsdate" where
  "prevWeekStart z now = setDate z (weekStart z now) (d_date (weekStart z now) - 7)"

definition monthStart :: "zone \<Rightarrow> jsdate \<Rightarrow> jsdate" where
  "monthStart z now = newDate z (d_year now) (d_month now) 1 0 0 0 0"

definition nextMonthStart :: "zone \<Rightarrow> jsdate \<Rightarrow> jsdate" where
  "nextMonthStart z now = newDate z (d_year now) (d_month now + 1) 1 0 0 0 0"

fun periodStart :: "zone \<Rightarrow> pay_schedule \<Rightarrow> jsdate \<Rightarrow> jsdate" where
  "periodStart z Weekly now = weekStart z now"
| "periodStart z Monthly now = monthStart z now"
| "periodStart z BiWeekly now = prevWeekStart z now"
| "periodStart z BiMonthly now = prevWeekStart z now"

fun periodEnd :: "zone \<Rightarrow> pay_schedule \<Rightarrow> jsdate \<Rightarrow> jsdate" where
  "periodEnd z Weekly now = nextWeekStart z now"
| "periodEnd z Monthly now = nextMonthStart z now"
| "periodEnd z BiWeekly now = nextWeekStart z now"
| "periodEnd z BiMonthly now = nextWeekStart z now"

section \<open>Example states\<close>

text \<open>
  States reached from the empty database through the routes, and requests on them.
  \<open>two_sessions\<close>: subject 1 clocks in at 100, out at 200, and in again at 300.
  \<open>one_pending\<close> and \<open>two_pending\<close>: subject 1 submits one manual entry, then a
  second one that overlaps the first. \<open>one_denied\<close>: the manual entry is denied by
  administrator 7.
\<close>

definition two_sessions :: db where
  "two_sessions = snd (clockIn 1 300 (snd (clockOut 1 200 (snd (clockIn 1 100 empty_db)))))"

definition one_pending :: db where
  "one_pending = snd (createManualEntry 1 (InTime 100) (OutTime 200) 1000 empty_db)"

definition two_pending :: db where
  "two_pending = snd (createManualEntry 1 (InTime 150) (OutTime 250) 1000 one_pending)"

definition one_denied :: db where
  "one_denied = snd (approveOrDeny \<lparr> rq_adminId = 7, rq_id = 1, rq_status = ReqDenied,
                                     rq_notes = None, rq_now = 2000 \<rparr> one_pending)"

definition admin_a :: approve_req where
  "admin_a = \<lparr> rq_adminId = 7, rq_id = 1, rq_status = ReqApproved, rq_notes = None,
               rq_now = 2000 \<rparr>"

definition admin_b :: approve_req where
  "admin_b = \<lparr> rq_adminId = 8, rq_id = 1, rq_status = ReqDenied, rq_notes = Some ''late'',
               rq_now = 2001 \<rparr>"








section \<open>Rows touched by an update\<close>

text \<open>
  An UPDATE by id keeps the id of every row, so a row found by the ownership query is
  among the rows the UPDATE returns.
\<close>

lemma returning_update_nonempty:
  assumes "filter (\<lambda>e. te_id e = i \<and> P e) rows = x # xs" and "\<And>e. te_id (f e) = te_id e"
  shows "returning i (update_by_id i f rows) \<noteq> []"
proof -
  from assms(1) have "x \<in> set (filter (\<lambda>e. te_id e = i \<and> P e) rows)" by simp
  then have "x \<in> set rows" and "te_id x = i" by auto
  then have "f x \<in> set (update_by_id i f rows)" by (auto simp: update_by_id_def)
  moreover have "te_id (f x) = i" using assms(2) \<open>te_id x = i\<close> by simp
  ultimately have "f x \<in> set (returning i (update_by_id i f rows))"
    by (simp add: returning_def)
  then show ?thesis by auto
qed

lemma returning_update_te_id:
  assumes "returning i (update_by_id i f rows) = t # ts" and "\<And>e. te_id (f e) = te_id e"
  shows "te_id t = i"
proof -
  have "t \<in> set (returning i (update_by_id i f rows))" using assms(1) by simp
  then show ?thesis by (simp add: returning_def)
qed

lemma approve_first_row:
  assumes "filter (\<lambda>e. te_id e = i \<and> is_manual e = Some True) rows = row # rest"
    and "\<And>e. te_id (f e) = te_id e" and "\<And>e. is_manual (f e) = is_manual e"
  shows "filter (\<lambda>e. te_id e = i \<and> is_manual e = Some True) (update_by_id i f rows)
           = f row # map f rest"
proof -
  have "filter (\<lambda>e. te_id e = i \<and> is_manual e = Some True) (update_by_id i f rows)
          = map f (filter (\<lambda>e. te_id e = i \<and> is_manual e = Some True) rows)"
    using assms(2,3) by (induction rows) (auto simp: update_by_id_def)
  then show ?thesis using assms(1) by simp
qed

section \<open>Outcomes of the routes\<close>

lemma fallbackFlag_cases:
  "fallbackFlag userId entryId now d = (r, d') \<Longrightarrow>
     (r = Failed NOT_FOUND \<and> d' = d)
     \<or> (\<exists>p a. r = Flagged p \<and> time_entry_audit d' = time_entry_audit d @ [a]
              \<and> au_action a = FallbackFlag \<and> au_time_entry_id a = p_id p
              \<and> next_id d' = next_id d)"
proof -
  assume h: "fallbackFlag userId entryId now d = (r, d')"
  show ?thesis
  proof (cases "entryCheck entryId userId d")
    case Nil
    with h show ?thesis by (simp add: fallbackFlag_def)
  next
    case (Cons v vs)
    let ?f = "\<lambda>e. e\<lparr> approval_status := Some Pending,
                        is_manual := (case is_manual e of None \<Rightarrow> Some True | Some b \<Rightarrow> Some b) \<rparr>"
    have ne: "returning entryId (update_by_id entryId ?f (time_entries d)) \<noteq> []"
      using Cons by (intro returning_update_nonempty[where P = "\<lambda>e. te_user_id e = userId"])
                    (simp_all add: entryCheck_def)
    then obtain fe rest where fe: "returning entryId (update_by_id entryId ?f (time_entries d)) = fe # rest"
      by (cases "returning entryId (update_by_id entryId ?f (time_entries d))") auto
    from h Cons fe show ?thesis
      by (auto simp: fallbackFlag_def Let_def payload_of_def)
  qed
qed

lemma fallbackFlag_not_active_edit:
  "fst (fallbackFlag userId entryId now d) \<noteq> Failed ACTIVE_EDIT_FORBIDDEN"
  using fallbackFlag_cases[of userId entryId now d
          "fst (fallbackFlag userId entryId now d)" "snd (fallbackFlag userId entryId now d)"]
  by auto

lemma update_checked_cases:
  assumes found: "entryCheck entryId userId d = existing # rest"
    and run: "update_checked userId entryId existing ci co now d = (r, d')"
  shows "(r = Failed OVERLAP \<and> d' = d)
       \<or> (r = Failed ACTIVE_EDIT_FORBIDDEN \<and> d' = d)
       \<or> (r = Failed NOT_FOUND \<and> d' = d)
       \<or> (\<exists>p. r = NoChanges p \<and> d' = d)
       \<or> (\<exists>b p a. r = Updated b p \<and> time_entry_audit d' = time_entry_audit d @ [a]
              \<and> au_action a = Update \<and> au_time_entry_id a = entryId
              \<and> new_clock_in a = Some ci \<and> new_clock_out a = co
              \<and> next_id d' = next_id d)
       \<or> (\<exists>p a. r = Flagged p \<and> time_entry_audit d' = time_entry_audit d @ [a]
              \<and> au_action a = FallbackFlag \<and> au_time_entry_id a = p_id p
              \<and> next_id d' = next_id d)"
proof (cases "update_overlapCheck userId entryId ci co now d = Some []")
  case False
  show ?thesis
  proof (cases "update_overlapCheck userId entryId ci co now d")
    case None
    with run have "fallbackFlag userId entryId now d = (r, d')"
      by (simp add: update_checked_def)
    from fallbackFlag_cases[OF this] show ?thesis by blast
  next
    case (Some rows)
    with False obtain row rows' where "rows = row # rows'" by (cases rows) auto
    with run Some show ?thesis by (simp add: update_checked_def)
  qed
next
  case no_overlap: True
  show ?thesis
  proof (cases "clock_out existing = None")
    case True
    with run no_overlap show ?thesis by (simp add: update_checked_def)
  next
    case completed: False
    define timesChanged where "timesChanged =
              (clock_in existing \<noteq> ci
               \<or> (clock_out existing \<noteq> None \<and> co \<noteq> None \<and> clock_out existing \<noteq> co)
               \<or> ((clock_out existing \<noteq> None) \<noteq> (co \<noteq> None)))"
    show ?thesis
    proof (cases "\<not> timesChanged \<and> is_manual existing = Some True
                  \<and> approval_status existing = Some Pending")
      case True
      with run no_overlap completed show ?thesis
        by (auto simp: update_checked_def Let_def timesChanged_def)
    next
      case False
      define f where "f = (\<lambda>e::time_entry. e\<lparr> clock_in := ci, clock_out := co,
            approval_status :=
              (if (is_manual existing \<noteq> Some True
                   \<or> (timesChanged \<and> approval_status existing \<noteq> Some Pending)
                   \<or> (is_manual existing = Some True
                       \<and> (approval_status existing = Some Approved
                           \<or> approval_status existing = Some Denied)))
               then Some Pending
               else (case approval_status existing of None \<Rightarrow> Some Pending
                     | Some st \<Rightarrow> Some st)),
            is_manual :=
              (if (is_manual existing \<noteq> Some True
                   \<or> (timesChanged \<and> approval_status existing \<noteq> Some Pending)
                   \<or> (is_manual existing = Some True
                       \<and> (approval_status existing = Some Approved
                           \<or> approval_status existing = Some Denied)))
               then Some True else is_manual existing) \<rparr>)"
      have keep: "\<And>e. te_id (f e) = te_id e" by (simp add: f_def)
      have "returning entryId (update_by_id entryId f (time_entries d)) \<noteq> []"
        using found keep
        by (intro returning_update_nonempty[where P = "\<lambda>e. te_user_id e = userId"])
           (simp_all add: entryCheck_def)
      then obtain t ts where t: "returning entryId (update_by_id entryId f (time_entries d)) = t # ts"
        by (cases "returning entryId (update_by_id entryId f (time_entries d))") auto
      from run no_overlap completed False t show ?thesis
        unfolding update_checked_def Let_def timesChanged_def[symmetric] f_def[symmetric]
        by auto
    qed
  qed
qed

lemma updateEntry_outcomes:
  assumes run: "updateEntry userId entryId cin cout now d = (r, d')"
  shows "(\<exists>e. r = Failed e \<and> d' = d)
       \<or> (\<exists>p. r = NoChanges p \<and> d' = d)
       \<or> (\<exists>b p a. r = Updated b p \<and> time_entry_audit d' = time_entry_audit d @ [a]
              \<and> au_action a = Update \<and> au_time_entry_id a = entryId)
       \<or> (\<exists>p a. r = Flagged p \<and> time_entry_audit d' = time_entry_audit d @ [a]
              \<and> au_action a = FallbackFlag \<and> au_time_entry_id a = p_id p)"
proof (cases "entryCheck entryId userId d")
  case Nil
  with run show ?thesis by (auto simp: updateEntry_def)
next
  case (Cons existing rest)
  have fb: "fallbackFlag userId entryId now d = (r, d') \<Longrightarrow> ?thesis"
    using fallbackFlag_cases[of userId entryId now d r d'] by auto
  have uc: "\<And>ci co. update_checked userId entryId existing ci co now d = (r, d') \<Longrightarrow> ?thesis"
    using update_checked_cases[OF Cons] by blast
  show ?thesis
  proof (cases cin)
    case InMissing
    with run Cons show ?thesis by (auto simp: updateEntry_def)
  next
    case InInvalid
    with run Cons fb show ?thesis
      by (cases cout) (auto simp: updateEntry_def)
  next
    case (InTime ci)
    show ?thesis
    proof (cases cout)
      case OutMissing
      with run Cons InTime uc[of ci None] show ?thesis by (simp add: updateEntry_def)
    next
      case OutBlank
      with run Cons InTime uc[of ci None] show ?thesis by (simp add: updateEntry_def)
    next
      case OutNotString
      with run Cons InTime fb show ?thesis by (simp add: updateEntry_def)
    next
      case OutInvalid
      with run Cons InTime show ?thesis by (auto simp: updateEntry_def)
    next
      case (OutTime co)
      show ?thesis
      proof (cases "co \<le> ci")
        case True
        with run Cons InTime OutTime show ?thesis by (auto simp: updateEntry_def)
      next
        case False
        with run Cons InTime OutTime uc[of ci "Some co"] show ?thesis
          by (simp add: updateEntry_def)
      qed
    qed
  qed
qed

lemma createManualEntry_outcomes:
  assumes run: "createManualEntry userId cin cout now d = (r, d')"
  shows "(\<exists>e. r = Failed e \<and> d' = d)
       \<or> (\<exists>p a. r = Created p \<and> time_entry_audit d' = time_entry_audit d @ [a]
              \<and> au_action a = Create \<and> au_time_entry_id a = p_id p
              \<and> new_clock_in a = Some (p_clockIn p) \<and> new_clock_out a = p_clockOut p)"
  using run
  by (cases "(userId, cin, cout, now, d)" rule: createManualEntry.cases)
     (auto simp: insert_manual_def Let_def payload_of_def
           split: if_splits option.splits list.splits)

lemma clockIn_audit: "time_entry_audit (snd (clockIn userId now d)) = time_entry_audit d"
  by (simp add: clockIn_def Let_def)

lemma clockOut_audit: "time_entry_audit (snd (clockOut userId now d)) = time_entry_audit d"
  by (simp add: clockOut_def Let_def split: list.splits)

lemma approveOrDeny_outcomes:
  assumes run: "approveOrDeny rq d = (r, d')"
  shows "(\<exists>e. r = Failed e)
       \<or> (\<exists>t a. r = Reviewed t \<and> time_entry_audit d' = time_entry_audit d @ [a]
              \<and> au_action a = (if rq_status rq = ReqApproved then Approve else Deny)
              \<and> au_time_entry_id a = te_id t
              \<and> new_approval_status a = approval_status t)"
  using run
  by (auto simp: approveOrDeny_def approve_step_def Let_def
           split: if_splits list.splits prod.splits approve_pc.splits)

section \<open>The single active session invariant on the routes that keep it\<close>

lemma clockIn_already_active:
  "active_rows userId d \<noteq> [] \<Longrightarrow> clockIn userId now d = (Failed ALREADY_ACTIVE, d)"
  by (simp add: clockIn_def)

lemma length_filter_map_le:
  assumes "\<And>x. P (f x) \<Longrightarrow> P x"
  shows "length (filter P (map f xs)) \<le> length (filter P xs)"
  using assms by (induction xs) auto

lemma active_update_le:
  assumes "\<And>e. te_user_id (f e) = te_user_id e" and "\<And>e. clock_out (f e) = None \<Longrightarrow> clock_out e = None"
  shows "length (active_rows u (d\<lparr> time_entries := update_by_id i f (time_entries d) \<rparr>))
           \<le> length (active_rows u d)"
proof -
  let ?P = "\<lambda>e. te_user_id e = u \<and> clock_out e = None"
  let ?g = "\<lambda>e. if te_id e = i then f e else e"
  have "length (filter ?P (map ?g (time_entries d))) \<le> length (filter ?P (time_entries d))"
    by (rule length_filter_map_le) (use assms in \<open>auto split: if_splits\<close>)
  then show ?thesis by (simp add: active_rows_def update_by_id_def del: filter_map)
qed

lemma single_active_clockIn: "single_active d \<Longrightarrow> single_active (snd (clockIn userId now d))"
proof -
  assume inv: "single_active d"
  show ?thesis
  proof (cases "active_rows userId d = []")
    case False
    then show ?thesis using inv by (simp add: clockIn_def)
  next
    case True
    have "length (active_rows u (snd (clockIn userId now d))) \<le> 1" for u
    proof (cases "u = userId")
      case same: True
      then show ?thesis using True by (simp add: clockIn_def Let_def active_rows_def)
    next
      case other: False
      have "length (active_rows u d) \<le> 1" using inv by (simp add: single_active_def)
      then show ?thesis using True other by (simp add: clockIn_def Let_def active_rows_def)
    qed
    then show ?thesis by (simp add: single_active_def)
  qed
qed

lemma single_active_clockOut: "single_active d \<Longrightarrow> single_active (snd (clockOut userId now d))"
proof -
  assume inv: "single_active d"
  have le: "length (active_rows u (d\<lparr> time_entries :=
               update_by_id i (\<lambda>e. e\<lparr> clock_out := Some now \<rparr>) (time_entries d) \<rparr>)) \<le> 1" for u i
    using active_update_le[where f = "\<lambda>e. e\<lparr> clock_out := Some now \<rparr>" and u = u and d = d and i = i] inv
    by (simp add: single_active_def) (meson le_trans)
  show ?thesis
    unfolding single_active_def
    using le inv by (auto simp: clockOut_def Let_def single_active_def split: list.splits)
qed

lemma single_active_create:
  "single_active d \<Longrightarrow> single_active (snd (createManualEntry userId cin cout now d))"
  by (cases "(userId, cin, cout, now, d)" rule: createManualEntry.cases)
     (auto simp: single_active_def insert_manual_def Let_def active_rows_def
           split: option.splits list.splits)

lemma single_active_delete:
  "single_active d \<Longrightarrow> single_active (snd (deleteEntry userId entryId d))"
proof -
  assume inv: "single_active d"
  have "length (filter P (filter Q xs)) \<le> length (filter P xs)" for P Q and xs :: "time_entry list"
    by (induction xs) auto
  then have le: "length (active_rows u (d\<lparr> time_entries := filter Q (time_entries d),
                                       time_entry_audit := as \<rparr>)) \<le> length (active_rows u d)"
    for u Q as by (simp add: active_rows_def)
  have one: "length (active_rows u d) \<le> 1" for u using inv by (simp add: single_active_def)
  have "length (active_rows u (d\<lparr> time_entries := filter Q (time_entries d),
                                       time_entry_audit := as \<rparr>)) \<le> 1" for u Q as
    using le[where u = u and Q = Q and as = as] one[of u] by (rule le_trans)
  then show ?thesis
    using inv by (simp add: single_active_def deleteEntry_def)
qed

lemma single_active_approve_step:
  "single_active d \<Longrightarrow> single_active (snd (approve_step rq pc d))"
proof -
  assume inv: "single_active d"
  let ?f = "\<lambda>e. e\<lparr> approval_status := decision (rq_status rq),
                                approved_by := Some (rq_adminId rq),
                                approval_date := Some (rq_now rq),
                                approval_notes :=
                                  (case notes_param (rq_notes rq) of
                                     None \<Rightarrow> approval_notes e
                                   | Some n \<Rightarrow> Some n) \<rparr>"
  have le: "length (active_rows u (d\<lparr> time_entries := update_by_id (rq_id rq) ?f (time_entries d) \<rparr>)) \<le> 1" for u
    using active_update_le[where f = ?f and u = u and d = d and i = "rq_id rq"] inv
    by (simp add: single_active_def) (meson le_trans)
  have same: "active_rows u (d\<lparr> time_entry_audit := as \<rparr>) = active_rows u d" for u as
    by (simp add: active_rows_def)
  show ?thesis
    unfolding single_active_def
    using le inv same
    by (cases pc) (auto simp: approve_step_def Let_def single_active_def split: list.splits)
qed

lemma single_active_fallbackFlag:
  "single_active d \<Longrightarrow> single_active (snd (fallbackFlag userId entryId now d))"
proof -
  assume inv: "single_active d"
  let ?f = "\<lambda>e. e\<lparr> approval_status := Some Pending,
                      is_manual := (case is_manual e of None \<Rightarrow> Some True | Some b \<Rightarrow> Some b) \<rparr>"
  have le: "length (active_rows u (d\<lparr> time_entries := update_by_id entryId ?f (time_entries d) \<rparr>)) \<le> 1" for u
    using active_update_le[where f = ?f and u = u and d = d and i = entryId] inv
    by (simp add: single_active_def) (meson le_trans)
  have same: "active_rows u (d\<lparr> time_entries := rows, time_entry_audit := as \<rparr>)
                = active_rows u (d\<lparr> time_entries := rows \<rparr>)" for u as rows
    by (simp add: active_rows_def)
  show ?thesis
    unfolding single_active_def
    using le inv same
    by (auto simp: fallbackFlag_def Let_def single_active_def split: list.splits)
qed

lemma single_active_update_checked:
  assumes inv: "single_active d"
  shows "single_active (snd (update_checked userId entryId existing ci (Some co) now d))"
proof -
  have le: "length (active_rows u (d\<lparr> time_entries := update_by_id entryId
               (\<lambda>e. e\<lparr> clock_in := ci, clock_out := Some co, approval_status := st,
                        is_manual := mn \<rparr>) (time_entries d) \<rparr>)) \<le> 1" for u st mn
    using active_update_le[where f = "\<lambda>e. e\<lparr> clock_in := ci, clock_out := Some co,
             approval_status := st, is_manual := mn \<rparr>" and u = u and d = d and i = entryId] inv
    by (simp add: single_active_def) (meson le_trans)
  have same: "active_rows u (d\<lparr> time_entries := rows, time_entry_audit := as \<rparr>)
                = active_rows u (d\<lparr> time_entries := rows \<rparr>)" for u as rows
    by (simp add: active_rows_def)
  have mid: "single_active (d\<lparr> time_entries := update_by_id entryId
               (\<lambda>e. e\<lparr> clock_in := ci, clock_out := Some co, approval_status := st,
                        is_manual := mn \<rparr>) (time_entries d), time_entry_audit := as \<rparr>)" for st mn as
    unfolding single_active_def using le same by simp
  show ?thesis
    using inv mid single_active_fallbackFlag
    by (simp add: update_checked_def Let_def split: list.splits option.splits)
qed

section \<open>The example states, evaluated\<close>

lemmas eval_defs = empty_db_def clockIn_def clockOut_def active_rows_def update_by_id_def
  returning_def createManualEntry.simps create_overlapCheck_def overlaps_def between_def
  effective_end_def insert_manual_def payload_of_def entryCheck_def update_overlapCheck_def
  fallbackFlag_def update_checked_def updateEntry_def approve_step_def approveOrDeny_def
  notes_param_def Let_def deleteEntry_def storable_def pg_timestamp_min_def
  pg_timestamp_end_def

lemma two_sessions_eq:
  "two_sessions = \<lparr> time_entries =
      [\<lparr> te_id = 1, te_user_id = 1, clock_in = 100, clock_out = Some 200,
         is_manual = Some False, approval_status = Some Approved, approved_by = None,
         approval_date = None, approval_notes = None, created_at = 100 \<rparr>,
       \<lparr> te_id = 2, te_user_id = 1, clock_in = 300, clock_out = None,
         is_manual = Some False, approval_status = Some Approved, approved_by = None,
         approval_date = None, approval_notes = None, created_at = 300 \<rparr>],
     time_entry_audit = [], next_id = 3 \<rparr>"
  by (simp add: two_sessions_def eval_defs)

lemma one_pending_eq:
  "one_pending = \<lparr> time_entries =
      [\<lparr> te_id = 1, te_user_id = 1, clock_in = 100, clock_out = Some 200,
         is_manual = Some True, approval_status = Some Pending, approved_by = None,
         approval_date = None, approval_notes = None, created_at = 1000 \<rparr>],
     time_entry_audit =
      [\<lparr> au_time_entry_id = 1, au_user_id = 1, au_action = Create,
         previous_clock_in = None, previous_clock_out = None,
         new_clock_in = Some 100, new_clock_out = Some 200,
         previous_approval_status = None, new_approval_status = Some Pending,
         au_created_at = 1000 \<rparr>],
     next_id = 2 \<rparr>"
  by (simp add: one_pending_def eval_defs)

lemma two_pending_eq:
  "two_pending = \<lparr> time_entries =
      [\<lparr> te_id = 1, te_user_id = 1, clock_in = 100, clock_out = Some 200,
         is_manual = Some True, approval_status = Some Pending, approved_by = None,
         approval_date = None, approval_notes = None, created_at = 1000 \<rparr>,
       \<lparr> te_id = 2, te_user_id = 1, clock_in = 150, clock_out = Some 250,
         is_manual = Some True, approval_status = Some Pending, approved_by = None,
         approval_date = None, approval_notes = None, created_at = 1000 \<rparr>],
     time_entry_audit =
      [\<lparr> au_time_entry_id = 1, au_user_id = 1, au_action = Create,
         previous_clock_in = None, previous_clock_out = None,
         new_clock_in = Some 100, new_clock_out = Some 200,
         previous_approval_status = None, new_approval_status = Some Pending,
         au_created_at = 1000 \<rparr>,
       \<lparr> au_time_entry_id = 2, au_user_id = 1, au_action = Create,
         previous_clock_in = None, previous_clock_out = None,
         new_clock_in = Some 150, new_clock_out = Some 250,
         previous_approval_status = None, new_approval_status = Some Pending,
         au_created_at = 1000 \<rparr>],
     next_id = 3 \<rparr>"
  by (simp add: two_pending_def one_pending_eq eval_defs)

lemma one_denied_eq:
  "one_denied = \<lparr> time_entries =
      [\<lparr> te_id = 1, te_user_id = 1, clock_in = 100, clock_out = Some 200,
         is_manual = Some True, approval_status = Some Denied, approved_by = Some 7,
         approval_date = Some 2000, approval_notes = None, created_at = 1000 \<rparr>],
     time_entry_audit =
      [\<lparr> au_time_entry_id = 1, au_user_id = 1, au_action = Create,
         previous_clock_in = None, previous_clock_out = None,
         new_clock_in = Some 100, new_clock_out = Some 200,
         previous_approval_status = None, new_approval_status = Some Pending,
         au_created_at = 1000 \<rparr>,
       \<lparr> au_time_entry_id = 1, au_user_id = 7, au_action = Deny,
         previous_clock_in = Some 100, previous_clock_out = Some 200,
         new_clock_in = Some 100, new_clock_out = Some 200,
         previous_approval_status = Some Pending, new_approval_status = Some Denied,
         au_created_at = 2000 \<rparr>],
     next_id = 2 \<rparr>"
  by (simp add: one_denied_def one_pending_eq eval_defs)


section \<open>Calendar arithmetic\<close>





























section \<open>Overlap validation: which entries are considered\<close>

text \<open>
  What the two queries do. A create with dates the database can hold is refused with
  OVERLAP exactly when an entry of the subject whose approval status is approved or
  NULL touches the submitted interval. The rows of the update query are the entries of
  the subject other than the one being updated that touch the submitted interval,
  whatever their approval status.
\<close>

lemma create_overlap_rule:
  assumes "ci < co" and "storable ci" and "storable co"
  shows "fst (createManualEntry userId (InTime ci) (OutTime co) now d) = Failed OVERLAP
       \<longleftrightarrow> (\<exists>e \<in> set (time_entries d). te_user_id e = userId
               \<and> (approval_status e = None \<or> approval_status e = Some Approved)
               \<and> overlaps ci co now e)"
proof -
  let ?rows = "filter (\<lambda>e. te_user_id e = userId
                   \<and> (approval_status e = None \<or> approval_status e = Some Approved)
                   \<and> overlaps ci co now e) (time_entries d)"
  have q: "create_overlapCheck userId ci co now d = Some ?rows"
    using assms by (simp add: create_overlapCheck_def)
  have "fst (createManualEntry userId (InTime ci) (OutTime co) now d) = Failed OVERLAP
          \<longleftrightarrow> ?rows \<noteq> []"
    using assms(1) q by (cases ?rows) (simp_all add: insert_manual_def Let_def)
  also have "?rows \<noteq> [] \<longleftrightarrow> (\<exists>e \<in> set (time_entries d). te_user_id e = userId
               \<and> (approval_status e = None \<or> approval_status e = Some Approved)
               \<and> overlaps ci co now e)"
    by (auto simp: filter_empty_conv)
  finally show ?thesis .
qed

lemma update_overlap_rule:
  assumes "update_overlapCheck userId entryId ci (Some co) now d = Some rows"
  shows "set rows = {e \<in> set (time_entries d).
                      te_user_id e = userId \<and> te_id e \<noteq> entryId \<and> overlaps ci co now e}"
  using assms by (auto simp: update_overlapCheck_def split: if_splits)

text \<open>
  Claim C1 fails on both routes, each against the other. On the create route a pending
  entry does not block: a manual entry from 150 to 250 is created although the pending
  entry from 100 to 200 of the same subject touches it, where the update route refuses
  the same interval. On the update route a denied entry blocks: moving the pending
  entry 2 onto the interval of the denied entry 1 is refused with OVERLAP, where the
  create route accepts that interval. The entry being updated is left out of the update
  query, as the claim says.
\<close>

theorem overlap_status_paths_disagree:
  "fst (createManualEntry 1 (InTime 150) (OutTime 250) 1000 one_pending)
     = Created \<lparr> p_id = 2, p_clockIn = 150, p_clockOut = Some 250,
                  p_isManual = Some True, p_approvalStatus = Some Pending \<rparr>
   \<and> overlaps 150 250 1000 (hd (time_entries one_pending))
   \<and> approval_status (hd (time_entries one_pending)) = Some Pending
   \<and> fst (updateEntry 1 2 (InTime 150) (OutTime 250) 1000 two_pending) = Failed OVERLAP
   \<and> approval_status (hd (time_entries one_denied)) = Some Denied
   \<and> fst (updateEntry 1 2 (InTime 150) (OutTime 250) 3000
            (snd (createManualEntry 1 (InTime 300) (OutTime 400) 2500 one_denied)))
       = Failed OVERLAP
   \<and> fst (createManualEntry 1 (InTime 150) (OutTime 250) 3000 one_denied)
       = Created \<lparr> p_id = 2, p_clockIn = 150, p_clockOut = Some 250,
                    p_isManual = Some True, p_approvalStatus = Some Pending \<rparr>"
  by (simp add: one_pending_eq two_pending_eq one_denied_eq eval_defs)

section \<open>Audit rows per mutation\<close>

text \<open>
  Claim C2, as the routes have it. A successful manual create, an update that writes the
  entry, a fallback flag and an approval or denial each append exactly one audit row,
  carrying the action and the id of the entry; an update that changes nothing leaves
  the database as it is; clock-in and clock-out append no audit row.
\<close>

theorem audited_mutations:
  "(createManualEntry userId cin cout now d = (Created p, d') \<longrightarrow>
      (\<exists>a. time_entry_audit d' = time_entry_audit d @ [a]
           \<and> au_action a = Create \<and> au_time_entry_id a = p_id p))
   \<and> (updateEntry userId entryId cin cout now d = (Updated b p, d') \<longrightarrow>
      (\<exists>a. time_entry_audit d' = time_entry_audit d @ [a]
           \<and> au_action a = Update \<and> au_time_entry_id a = entryId))
   \<and> (updateEntry userId entryId cin cout now d = (Flagged p, d') \<longrightarrow>
      (\<exists>a. time_entry_audit d' = time_entry_audit d @ [a]
           \<and> au_action a = FallbackFlag \<and> au_time_entry_id a = p_id p))
   \<and> (approveOrDeny rq d = (Reviewed t, d') \<longrightarrow>
      (\<exists>a. time_entry_audit d' = time_entry_audit d @ [a]
           \<and> au_action a = (if rq_status rq = ReqApproved then Approve else Deny)
           \<and> au_time_entry_id a = te_id t))
   \<and> (updateEntry userId entryId cin cout now d = (NoChanges p, d') \<longrightarrow> d' = d)
   \<and> time_entry_audit (snd (clockIn userId now d)) = time_entry_audit d
   \<and> time_entry_audit (snd (clockOut userId now d)) = time_entry_audit d"
proof (intro conjI impI)
  assume "createManualEntry userId cin cout now d = (Created p, d')"
  from createManualEntry_outcomes[OF this]
  show "\<exists>a. time_entry_audit d' = time_entry_audit d @ [a]
           \<and> au_action a = Create \<and> au_time_entry_id a = p_id p" by auto
next
  assume "updateEntry userId entryId cin cout now d = (Updated b p, d')"
  from updateEntry_outcomes[OF this]
  show "\<exists>a. time_entry_audit d' = time_entry_audit d @ [a]
           \<and> au_action a = Update \<and> au_time_entry_id a = entryId" by auto
next
  assume "updateEntry userId entryId cin cout now d = (Flagged p, d')"
  from updateEntry_outcomes[OF this]
  show "\<exists>a. time_entry_audit d' = time_entry_audit d @ [a]
           \<and> au_action a = FallbackFlag \<and> au_time_entry_id a = p_id p" by auto
next
  assume "approveOrDeny rq d = (Reviewed t, d')"
  from approveOrDeny_outcomes[OF this]
  show "\<exists>a. time_entry_audit d' = time_entry_audit d @ [a]
           \<and> au_action a = (if rq_status rq = ReqApproved then Approve else Deny)
           \<and> au_time_entry_id a = te_id t" by auto
next
  assume "updateEntry userId entryId cin cout now d = (NoChanges p, d')"
  from updateEntry_outcomes[OF this] show "d' = d" by auto
next
  show "time_entry_audit (snd (clockIn userId now d)) = time_entry_audit d"
    by (rule clockIn_audit)
next
  show "time_entry_audit (snd (clockOut userId now d)) = time_entry_audit d"
    by (rule clockOut_audit)
qed

text \<open>
  Each of the four audited routes, run on the state with one pending manual entry (the
  create route on the empty database).
\<close>

theorem audited_mutations_witness:
  "(\<exists>a. time_entry_audit one_pending = time_entry_audit empty_db @ [a]
        \<and> au_action a = Create \<and> au_time_entry_id a = 1)
   \<and> (\<exists>a. time_entry_audit (snd (updateEntry 1 1 (InTime 100) (OutTime 250) 3000 one_pending))
             = time_entry_audit one_pending @ [a]
        \<and> au_action a = Update \<and> au_time_entry_id a = 1)
   \<and> (\<exists>a. time_entry_audit (snd (updateEntry 1 1 (InTime 100) OutNotString 3000 one_pending))
             = time_entry_audit one_pending @ [a]
        \<and> au_action a = FallbackFlag \<and> au_time_entry_id a = 1)
   \<and> (\<exists>a. time_entry_audit (snd (approveOrDeny admin_a one_pending))
             = time_entry_audit one_pending @ [a]
        \<and> au_action a = Approve \<and> au_time_entry_id a = 1)"
proof -
  have c: "createManualEntry 1 (InTime 100) (OutTime 200) 1000 empty_db
      = (Created \<lparr> p_id = 1, p_clockIn = 100, p_clockOut = Some 200, p_isManual = Some True,
                    p_approvalStatus = Some Pending \<rparr>, one_pending)"
    by (simp add: one_pending_eq eval_defs)
  have u: "updateEntry 1 1 (InTime 100) (OutTime 250) 3000 one_pending
      = (Updated False \<lparr> p_id = 1, p_clockIn = 100, p_clockOut = Some 250,
                          p_isManual = Some True, p_approvalStatus = Some Pending \<rparr>,
         snd (updateEntry 1 1 (InTime 100) (OutTime 250) 3000 one_pending))"
    by (simp add: one_pending_eq eval_defs)
  have f: "updateEntry 1 1 (InTime 100) OutNotString 3000 one_pending
      = (Flagged \<lparr> p_id = 1, p_clockIn = 100, p_clockOut = Some 200,
                    p_isManual = Some True, p_approvalStatus = Some Pending \<rparr>,
         snd (updateEntry 1 1 (InTime 100) OutNotString 3000 one_pending))"
    by (simp add: one_pending_eq eval_defs)
  have r: "approveOrDeny admin_a one_pending
      = (Reviewed \<lparr> te_id = 1, te_user_id = 1, clock_in = 100, clock_out = Some 200,
          is_manual = Some True, approval_status = Some Approved, approved_by = Some 7,
          approval_date = Some 2000, approval_notes = None, created_at = 1000 \<rparr>,
         snd (approveOrDeny admin_a one_pending))"
    by (simp add: one_pending_eq admin_a_def eval_defs)
  have sa: "rq_status admin_a = ReqApproved" by (simp add: admin_a_def)
  show ?thesis
    using audited_mutations [where userId = 1 and cin = "InTime 100" and cout = "OutTime 200"
            and now = 1000 and d = empty_db and d' = one_pending
            and p = "\<lparr> p_id = 1, p_clockIn = 100, p_clockOut = Some 200,
                       p_isManual = Some True, p_approvalStatus = Some Pending \<rparr>"]
          audited_mutations [where userId = 1 and entryId = 1 and cin = "InTime 100"
            and cout = "OutTime 250" and now = 3000 and d = one_pending
            and d' = "snd (updateEntry 1 1 (InTime 100) (OutTime 250) 3000 one_pending)"
            and b = False
            and p = "\<lparr> p_id = 1, p_clockIn = 100, p_clockOut = Some 250,
                       p_isManual = Some True, p_approvalStatus = Some Pending \<rparr>"]
          audited_mutations [where userId = 1 and entryId = 1 and cin = "InTime 100"
            and cout = OutNotString and now = 3000 and d = one_pending
            and d' = "snd (updateEntry 1 1 (InTime 100) OutNotString 3000 one_pending)"
            and p = "\<lparr> p_id = 1, p_clockIn = 100, p_clockOut = Some 200,
                       p_isManual = Some True, p_approvalStatus = Some Pending \<rparr>"]
          audited_mutations [where rq = admin_a and d = one_pending
            and d' = "snd (approveOrDeny admin_a one_pending)"
            and t = "\<lparr> te_id = 1, te_user_id = 1, clock_in = 100, clock_out = Some 200,
          is_manual = Some True, approval_status = Some Approved, approved_by = Some 7,
          approval_date = Some 2000, approval_notes = None, created_at = 1000 \<rparr>"]
          c u f r sa
    by simp
qed

text \<open>
  Clock-in and clock-out succeed and the audit table stays empty: the audit table has
  no action for them.
\<close>

theorem clock_in_leaves_no_audit:
  "clockIn 1 100 empty_db
     = (ClockedIn 1 100,
        \<lparr> time_entries =
            [\<lparr> te_id = 1, te_user_id = 1, clock_in = 100, clock_out = None,
               is_manual = Some False, approval_status = Some Approved, approved_by = None,
               approval_date = None, approval_notes = None, created_at = 100 \<rparr>],
          time_entry_audit = [], next_id = 2 \<rparr>)
   \<and> fst (clockOut 1 200 (snd (clockIn 1 100 empty_db))) = ClockedOut 1 100 (Some 200)
   \<and> time_entry_audit (snd (clockOut 1 200 (snd (clockIn 1 100 empty_db)))) = []"
  by (simp add: eval_defs)

section \<open>The fallback flag and automatic entries\<close>

text \<open>
  Claim C3 fails on an automatic entry. An update whose clock-out field is not a string
  throws after the ownership check, and the catch block flags entry 1 of
  \<open>two_sessions\<close>: the approval status becomes pending, but
  \<^verbatim>\<open>COALESCE(is_manual, TRUE)\<close> keeps the stored value \<open>false\<close>, while the
  reply reports \<^verbatim>\<open>isManual: true\<close>.
\<close>

theorem fallback_keeps_automatic_flag:
  "updateEntry 1 1 (InTime 100) OutNotString 400 two_sessions
     = (Flagged \<lparr> p_id = 1, p_clockIn = 100, p_clockOut = Some 200,
                   p_isManual = Some True, p_approvalStatus = Some Pending \<rparr>,
        two_sessions
          \<lparr> time_entries :=
              [\<lparr> te_id = 1, te_user_id = 1, clock_in = 100, clock_out = Some 200,
                 is_manual = Some False, approval_status = Some Pending, approved_by = None,
                 approval_date = None, approval_notes = None, created_at = 100 \<rparr>,
               \<lparr> te_id = 2, te_user_id = 1, clock_in = 300, clock_out = None,
                 is_manual = Some False, approval_status = Some Approved, approved_by = None,
                 approval_date = None, approval_notes = None, created_at = 300 \<rparr>],
            time_entry_audit :=
              [\<lparr> au_time_entry_id = 1, au_user_id = 1, au_action = FallbackFlag,
                 previous_clock_in = Some 100, previous_clock_out = Some 200,
                 new_clock_in = Some 100, new_clock_out = Some 200,
                 previous_approval_status = None, new_approval_status = Some Pending,
                 au_created_at = 400 \<rparr>] \<rparr>)"
  by (simp add: two_sessions_eq eval_defs)

section \<open>Entries longer than 24 hours\<close>

text \<open>
  Claim C4 fails on the routes: neither POST /entry nor PUT /entry/:id compares the
  duration with 24 hours. An interval of 25 hours (90000000 ms) is created, and a
  pending entry is stretched to 25 hours, although the entry form rejects the same
  interval with "Time entry cannot exceed 24 hours".
\<close>

theorem long_entries_accepted:
  "fst (createManualEntry 1 (InTime 0) (OutTime 90000000) 1000 empty_db)
     = Created \<lparr> p_id = 1, p_clockIn = 0, p_clockOut = Some 90000000,
                  p_isManual = Some True, p_approvalStatus = Some Pending \<rparr>
   \<and> fst (updateEntry 1 1 (InTime 100) (OutTime 90000100) 1000 one_pending)
     = Updated False \<lparr> p_id = 1, p_clockIn = 100, p_clockOut = Some 90000100,
                  p_isManual = Some True, p_approvalStatus = Some Pending \<rparr>
   \<and> validateForm (Some 0) (Some 90000000) = False
   \<and> validateForm_errors (Some 0) (Some 90000000) = [FormExceeds24h]"
  by (simp add: one_pending_eq eval_defs validateForm_def validateForm_errors_def)

section \<open>Two reviews of one entry\<close>

text \<open>
  What the status check does achieve. Once the UPDATE of one review of a manual entry has
  run, the SELECT of any later review of that entry finds a status other than pending
  and the review is refused with ALREADY_REVIEWED, changing nothing. In particular two
  reviews that run one after the other give one success and one refusal.
\<close>

lemma review_after_update_refused:
  assumes found: "filter (\<lambda>e. te_id e = rq_id a \<and> is_manual e = Some True) (time_entries d)
                    = row # rest"
    and valid: "decision (rq_status a) \<noteq> None" "decision (rq_status b) \<noteq> None"
    and same: "rq_id b = rq_id a"
  shows "approve_step b AtCheck (snd (approve_step a AtUpdate d))
           = (Finished (Failed ALREADY_REVIEWED), snd (approve_step a AtUpdate d))"
proof -
  define f where "f = (\<lambda>e::time_entry. e\<lparr> approval_status := decision (rq_status a),
                                approved_by := Some (rq_adminId a),
                                approval_date := Some (rq_now a),
                                approval_notes :=
                                  (case notes_param (rq_notes a) of
                                     None \<Rightarrow> approval_notes e
                                   | Some n \<Rightarrow> Some n) \<rparr>)"
  define d1 where "d1 = d\<lparr> time_entries := update_by_id (rq_id a) f (time_entries d) \<rparr>"
  have keep: "\<And>e. te_id (f e) = te_id e" "\<And>e. is_manual (f e) = is_manual e"
    by (simp_all add: f_def)
  have after: "snd (approve_step a AtUpdate d) = d1"
    by (simp add: approve_step_def Let_def d1_def f_def split: list.splits)
  have "filter (\<lambda>e. te_id e = rq_id a \<and> is_manual e = Some True) (time_entries d1)
          = f row # map f rest"
    using approve_first_row[OF found keep] by (simp add: d1_def)
  moreover have "approval_status (f row) \<noteq> Some Pending"
    using valid(1) by (cases "rq_status a") (simp_all add: f_def)
  ultimately have "approve_step b AtCheck d1 = (Finished (Failed ALREADY_REVIEWED), d1)"
    using valid(2) same by (simp add: approve_step_def)
  then show ?thesis by (simp only: after)
qed

lemma sequential_reviews_exclusive:
  assumes pending: "filter (\<lambda>e. te_id e = rq_id a \<and> is_manual e = Some True) (time_entries d)
                      = row # rest"
                   "approval_status row = Some Pending"
    and valid: "decision (rq_status a) \<noteq> None" "decision (rq_status b) \<noteq> None"
    and same: "rq_id b = rq_id a"
  shows "\<exists>t d1. approveOrDeny a d = (Reviewed t, d1)
           \<and> approval_status t = decision (rq_status a)
           \<and> approveOrDeny b d1 = (Failed ALREADY_REVIEWED, d1)"
proof -
  define f where "f = (\<lambda>e::time_entry. e\<lparr> approval_status := decision (rq_status a),
                                approved_by := Some (rq_adminId a),
                                approval_date := Some (rq_now a),
                                approval_notes :=
                                  (case notes_param (rq_notes a) of
                                     None \<Rightarrow> approval_notes e
                                   | Some n \<Rightarrow> Some n) \<rparr>)"
  define rows where "rows = update_by_id (rq_id a) f (time_entries d)"
  have keep: "\<And>e. te_id (f e) = te_id e" "\<And>e. is_manual (f e) = is_manual e"
    by (simp_all add: f_def)
  have ne: "returning (rq_id a) rows \<noteq> []"
    unfolding rows_def using pending(1) keep(1)
    by (intro returning_update_nonempty[where P = "\<lambda>e. is_manual e = Some True"]) simp_all
  then obtain t ts where t: "returning (rq_id a) rows = t # ts"
    by (cases "returning (rq_id a) rows") auto
  have t_in: "t \<in> set (returning (rq_id a) rows)" using t by simp
  then obtain e where "t = f e"
    by (auto simp: returning_def rows_def update_by_id_def split: if_splits)
  then have t_status: "approval_status t = decision (rq_status a)" by (simp add: f_def)
  define audit where "audit = \<lparr> au_time_entry_id = te_id t, au_user_id = rq_adminId a,
                         au_action = (if rq_status a = ReqApproved then Approve else Deny),
                         previous_clock_in = Some (clock_in t),
                         previous_clock_out = clock_out t,
                         new_clock_in = Some (clock_in t),
                         new_clock_out = clock_out t,
                         previous_approval_status = Some Pending,
                         new_approval_status = approval_status t,
                         au_created_at = rq_now a \<rparr>"
  define d1 where "d1 = d\<lparr> time_entries := rows,
                           time_entry_audit := time_entry_audit d @ [audit] \<rparr>"
  have first: "approveOrDeny a d = (Reviewed t, d1)"
    using pending valid(1) t
    by (simp add: approveOrDeny_def approve_step_def Let_def d1_def audit_def
          rows_def[symmetric] f_def[symmetric])
  have "filter (\<lambda>e. te_id e = rq_id a \<and> is_manual e = Some True) (time_entries d1)
          = f row # map f rest"
    using approve_first_row[OF pending(1) keep] by (simp add: d1_def rows_def)
  moreover have "approval_status (f row) \<noteq> Some Pending"
    using valid(1) by (cases "rq_status a") (simp_all add: f_def)
  ultimately have second: "approveOrDeny b d1 = (Failed ALREADY_REVIEWED, d1)"
    using valid(2) same by (simp add: approveOrDeny_def approve_step_def)
  from first t_status second show ?thesis by blast
qed

text \<open>
  Claim C5 fails on the approval route. The SELECT of the status and the UPDATE are two
  statements and the UPDATE carries no condition on the status. Under the schedule in
  which both requests read the status before either writes, both succeed: the pending
  entry 1 is first approved by administrator 7, then denied by administrator 8, and two
  review rows are appended to the audit table.
\<close>

theorem concurrent_reviews_both_succeed:
  "interleave admin_a admin_b [True, False, True, False, True, False]
       (AtCheck, AtCheck, one_pending)
   = (Finished (Reviewed
        \<lparr> te_id = 1, te_user_id = 1, clock_in = 100, clock_out = Some 200,
          is_manual = Some True, approval_status = Some Approved, approved_by = Some 7,
          approval_date = Some 2000, approval_notes = None, created_at = 1000 \<rparr>),
      Finished (Reviewed
        \<lparr> te_id = 1, te_user_id = 1, clock_in = 100, clock_out = Some 200,
          is_manual = Some True, approval_status = Some Denied, approved_by = Some 8,
          approval_date = Some 2001, approval_notes = Some ''late'', created_at = 1000 \<rparr>),
      one_pending
        \<lparr> time_entries :=
            [\<lparr> te_id = 1, te_user_id = 1, clock_in = 100, clock_out = Some 200,
               is_manual = Some True, approval_status = Some Denied, approved_by = Some 8,
               approval_date = Some 2001, approval_notes = Some ''late'',
               created_at = 1000 \<rparr>],
          time_entry_audit :=
            time_entry_audit one_pending @
            [\<lparr> au_time_entry_id = 1, au_user_id = 7, au_action = Approve,
               previous_clock_in = Some 100, previous_clock_out = Some 200,
               new_clock_in = Some 100, new_clock_out = Some 200,
               previous_approval_status = Some Pending,
               new_approval_status = Some Approved, au_created_at = 2000 \<rparr>,
             \<lparr> au_time_entry_id = 1, au_user_id = 8, au_action = Deny,
               previous_clock_in = Some 100, previous_clock_out = Some 200,
               new_clock_in = Some 100, new_clock_out = Some 200,
               previous_approval_status = Some Pending,
               new_approval_status = Some Denied, au_created_at = 2001 \<rparr>] \<rparr>)"
  by (simp add: one_pending_eq admin_a_def admin_b_def eval_defs)

section \<open>A second active entry through an update\<close>

text \<open>
  Claim C6 fails on the update route. In \<open>two_sessions\<close> subject 1 has one active
  entry, started at 300. An update of the completed entry 1 with a blank clock-out
  passes the overlap query (the active entry starts after the submitted clock-in, and
  the query only looks for active entries that started before it) and the active-entry
  check (entry 1 is completed), and writes NULL into clock_out: the subject then has
  two active entries. Clock-in, clock-out, manual create, delete, review and the
  fallback flag keep the invariant (lemmas above).
\<close>

theorem update_reopens_second_session:
  "length (active_rows 1 two_sessions) = 1
   \<and> fst (updateEntry 1 1 (InTime 100) OutBlank 400 two_sessions)
       = Updated True \<lparr> p_id = 1, p_clockIn = 100, p_clockOut = None,
                        p_isManual = Some True, p_approvalStatus = Some Pending \<rparr>
   \<and> length (active_rows 1 (snd (updateEntry 1 1 (InTime 100) OutBlank 400 two_sessions))) = 2
   \<and> \<not> single_active (snd (updateEntry 1 1 (InTime 100) OutBlank 400 two_sessions))"
proof -
  have n: "length (active_rows 1 (snd (updateEntry 1 1 (InTime 100) OutBlank 400 two_sessions))) = 2"
    by (simp add: two_sessions_eq eval_defs)
  have "\<not> single_active (snd (updateEntry 1 1 (InTime 100) OutBlank 400 two_sessions))"
    unfolding single_active_def using n by (metis numeral_le_one_iff semiring_norm(69))
  moreover have "length (active_rows 1 two_sessions) = 1"
    by (simp add: two_sessions_eq active_rows_def)
  moreover have "fst (updateEntry 1 1 (InTime 100) OutBlank 400 two_sessions)
       = Updated True \<lparr> p_id = 1, p_clockIn = 100, p_clockOut = None,
                        p_isManual = Some True, p_approvalStatus = Some Pending \<rparr>"
    by (simp add: two_sessions_eq eval_defs)
  ultimately show ?thesis using n by simp
qed

section \<open>Payroll arithmetic\<close>

text \<open>
  Claim C7. With overtime disabled the regular hours are the total hours and there are no
  overtime hours; with overtime enabled the regular hours are the minimum of total and
  threshold and the overtime hours are the positive part of total minus threshold; the
  estimated gross pay is regular hours times rate plus overtime hours times rate times
  1.5. For rate 20, overtime enabled, 45 hours and threshold 40 this gives 40 regular
  hours, 5 overtime hours and 950 gross pay, also in the row the route sends, whose
  numbers are rounded to two decimals.
\<close>

theorem computePayroll_spec:
  "(\<not> en \<longrightarrow> regularHours (computePayroll t en thr r) = t
            \<and> overtimeHours (computePayroll t en thr r) = 0)
   \<and> (en \<longrightarrow> regularHours (computePayroll t en thr r) = min t thr
            \<and> overtimeHours (computePayroll t en thr r) = max 0 (t - thr))
   \<and> estGross (computePayroll t en thr r)
       = regularHours (computePayroll t en thr r) * r
         + overtimeHours (computePayroll t en thr r) * r * 1.5
   \<and> computePayroll 45 True 40 20
       = \<lparr> regularHours = 40, overtimeHours = 5, estGross = 950 \<rparr>
   \<and> payrollRow 45 True Weekly (Some 20)
       = \<lparr> row_hours = 45, row_regularHours = 40, row_overtimeHours = 5,
           row_estGross = 950, row_hourlyRate = 20, row_overtimeEnabled = True \<rparr>"
  by (simp add: payrollRow_def computePayroll_def rateOf_def toFixed2_def
        overtimeRateMultiplier_def Let_def)

theorem computePayroll_spec_witness:
  "regularHours (computePayroll 45 True 40 20) = min 45 40
   \<and> overtimeHours (computePayroll 45 True 40 20) = max 0 (45 - 40)
   \<and> regularHours (computePayroll 45 False 40 20) = 45
   \<and> overtimeHours (computePayroll 45 False 40 20) = 0
   \<and> estGross (computePayroll 45 True 40 20) = 950"
  using computePayroll_spec [of True 45 40 20] computePayroll_spec [of False 45 40 20]
  by simp

section \<open>Pay period boundaries\<close>




section \<open>An update that changes nothing\<close>

text \<open>
  Claim C9, with the checks that run before the short-circuit. An update of a manual,
  pending, completed entry (clock-out set and later than clock-in) with the stored
  clock-in and clock-out, whose interval touches no other entry of the subject (the
  overlap query of the update returns no row), succeeds, returns the stored state, and
  leaves the database, audit table included, as it is.
\<close>

theorem noop_update_echoes:
  assumes "entryCheck entryId userId d = existing # rest"
    and "is_manual existing = Some True" and "approval_status existing = Some Pending"
    and "clock_out existing = Some co" and "clock_in existing < co"
    and "update_overlapCheck userId entryId (clock_in existing) (Some co) now d = Some []"
  shows "updateEntry userId entryId (InTime (clock_in existing)) (OutTime co) now d
           = (NoChanges \<lparr> p_id = te_id existing, p_clockIn = clock_in existing,
                           p_clockOut = clock_out existing, p_isManual = Some True,
                           p_approvalStatus = Some Pending \<rparr>, d)"
  using assms by (simp add: updateEntry_def update_checked_def Let_def)

theorem noop_update_echoes_witness:
  "updateEntry 1 1 (InTime 100) (OutTime 200) 3000 one_pending
     = (NoChanges \<lparr> p_id = 1, p_clockIn = 100, p_clockOut = Some 200, p_isManual = Some True,
                     p_approvalStatus = Some Pending \<rparr>, one_pending)"
  using noop_update_echoes [of 1 1 one_pending
          "\<lparr> te_id = 1, te_user_id = 1, clock_in = 100, clock_out = Some 200,
             is_manual = Some True, approval_status = Some Pending, approved_by = None,
             approval_date = None, approval_notes = None, created_at = 1000 \<rparr>" "[]" 200 3000]
  by (simp add: one_pending_eq entryCheck_def update_overlapCheck_def storable_def
        pg_timestamp_min_def pg_timestamp_end_def)

text \<open>
  Without the condition on the other entries the statement fails. The create route
  ignores pending entries, so the two overlapping pending entries of \<open>two_pending\<close>
  exist; the update route does not, and resubmitting the stored times of the second one
  is refused with OVERLAP.
\<close>

theorem noop_update_counterexample:
  "approval_status (time_entries two_pending ! 1) = Some Pending
   \<and> is_manual (time_entries two_pending ! 1) = Some True
   \<and> te_id (time_entries two_pending ! 1) = 2
   \<and> clock_in (time_entries two_pending ! 1) = 150
   \<and> clock_out (time_entries two_pending ! 1) = Some 250
   \<and> updateEntry 1 2 (InTime 150) (OutTime 250) 3000 two_pending = (Failed OVERLAP, two_pending)"
  by (simp add: two_pending_eq eval_defs)

section \<open>Order of the checks of an update\<close>

text \<open>
  The order of the checks. For an update of an active entry (clock-out NULL) that the
  caller owns, with a valid clock-in: a clock-out that is not after the clock-in fails
  with CLOCK_ORDER; when the overlap query returns a row the reply is OVERLAP; and
  ACTIVE_EDIT_FORBIDDEN is the reply only when the ordering check has passed and the
  overlap query has returned no row.
\<close>

lemma update_checks_in_order:
  assumes "entryCheck entryId userId d = existing # rest" and "clock_out existing = None"
  shows "(co \<le> ci \<longrightarrow>
            updateEntry userId entryId (InTime ci) (OutTime co) now d = (Failed CLOCK_ORDER, d))
       \<and> (ci < co \<and> update_overlapCheck userId entryId ci (Some co) now d = Some (row # rows)
            \<longrightarrow> updateEntry userId entryId (InTime ci) (OutTime co) now d = (Failed OVERLAP, d))
       \<and> (update_overlapCheck userId entryId ci None now d = Some (row # rows) \<longrightarrow>
            updateEntry userId entryId (InTime ci) OutMissing now d = (Failed OVERLAP, d)
            \<and> updateEntry userId entryId (InTime ci) OutBlank now d = (Failed OVERLAP, d))
       \<and> (fst (updateEntry userId entryId cin cout now d) = Failed ACTIVE_EDIT_FORBIDDEN \<longrightarrow>
            (\<exists>t. cin = InTime t
               \<and> ((\<exists>t'. cout = OutTime t' \<and> t < t'
                         \<and> update_overlapCheck userId entryId t (Some t') now d = Some [])
                  \<or> ((cout = OutMissing \<or> cout = OutBlank)
                         \<and> update_overlapCheck userId entryId t None now d = Some []))))"
proof (intro conjI impI)
  assume h: "fst (updateEntry userId entryId cin cout now d) = Failed ACTIVE_EDIT_FORBIDDEN"
  show "\<exists>t. cin = InTime t
               \<and> ((\<exists>t'. cout = OutTime t' \<and> t < t'
                         \<and> update_overlapCheck userId entryId t (Some t') now d = Some [])
                  \<or> ((cout = OutMissing \<or> cout = OutBlank)
                         \<and> update_overlapCheck userId entryId t None now d = Some []))"
    using h assms fallbackFlag_not_active_edit[of userId entryId now d]
    by (cases cin; cases cout)
       (auto simp: updateEntry_def update_checked_def
             split: if_splits option.splits list.splits)
qed (use assms in \<open>simp_all add: updateEntry_def update_checked_def\<close>)

text \<open>
  Claim C10 fails for a request without clock-out. The checks run in the claimed order,
  but the overlap query of such a request only finds entries that contain the submitted
  clock-in, and active entries that started at or before it. Entry 2 of
  \<open>two_sessions\<close> is active. An update of it at time 600 with clock-in 50 and no
  clock-out covers entry 1 (100 to 200) of the same subject; the query returns no row
  and the reply is ACTIVE_EDIT_FORBIDDEN, where the claim says OVERLAP. With the
  clock-out 600 written out, the other query finds entry 1 and the reply is OVERLAP. A
  mis-ordered request is refused with CLOCK_ORDER, as the claim says. A clock-in before
  the first timestamp the database can hold makes the overlap query raise, and the
  fallback flags the active entry instead of refusing the request.
\<close>

theorem open_ended_update_misses_overlap:
  "entryCheck 2 1 two_sessions
     = [\<lparr> te_id = 2, te_user_id = 1, clock_in = 300, clock_out = None,
          is_manual = Some False, approval_status = Some Approved, approved_by = None,
          approval_date = None, approval_notes = None, created_at = 300 \<rparr>]
   \<and> te_id (hd (time_entries two_sessions)) = 1
   \<and> te_user_id (hd (time_entries two_sessions)) = 1
   \<and> clock_in (hd (time_entries two_sessions)) = 100
   \<and> clock_out (hd (time_entries two_sessions)) = Some 200
   \<and> updateEntry 1 2 (InTime 50) OutMissing 600 two_sessions
       = (Failed ACTIVE_EDIT_FORBIDDEN, two_sessions)
   \<and> updateEntry 1 2 (InTime 50) (OutTime 600) 600 two_sessions
       = (Failed OVERLAP, two_sessions)
   \<and> updateEntry 1 2 (InTime 500) (OutTime 450) 600 two_sessions
       = (Failed CLOCK_ORDER, two_sessions)
   \<and> fst (updateEntry 1 2 (InTime (- 300000000000000)) (OutTime 600) 600 two_sessions)
       = Flagged \<lparr> p_id = 2, p_clockIn = 300, p_clockOut = None, p_isManual = Some True,
                   p_approvalStatus = Some Pending \<rparr>"
  by (simp add: two_sessions_eq eval_defs)

end
